theory Spec2Isabelle
  imports Complex_Main "HOL-Library.Char_ord" "HOL-Library.List_Lexorder"
begin

section \<open>Order rows and the library calls the aggregators make\<close>

text \<open>
  The aggregators of \<^verbatim>\<open>AmazonOrdersAnalyzer\<close> read \<^verbatim>\<open>self.orders\<close>, a list of rows
  as \<^verbatim>\<open>csv.DictReader\<close> yields them: dictionaries from column names to cell texts.
  A row is a partial map from strings to strings; a column that the header does not
  have is a key outside the domain, and \<^verbatim>\<open>order.get(k, d)\<close> is \<open>get_or row k d\<close>.
  Every cell of a row is a text: a line with fewer cells than the header, which the
  reader fills with \<^verbatim>\<open>None\<close>, is not a row of this model.
  Strings are lists of 8-bit characters, so the model speaks about ASCII cell texts.
\<close>

type_synonym order = "string \<rightharpoonup> string"

definition get_or :: "order \<Rightarrow> string \<Rightarrow> string \<Rightarrow> string" where
  "get_or row k d = (case row k of None \<Rightarrow> d | Some v \<Rightarrow> v)"

text \<open>
  Three library calls decide how a cell text is read: \<^verbatim>\<open>float(s)\<close>, \<^verbatim>\<open>int(s)\<close> and
  \<^verbatim>\<open>datetime.fromisoformat(s)\<close>. On a string each of them either returns a value or
  raises \<^verbatim>\<open>ValueError\<close>, which every call site catches; \<open>None\<close> stands for the raise.
  Their grammars belong to the Python library, not to this program, so the aggregators
  take them as a parameter \<open>B\<close> and every general theorem below holds for all of them.
  Floating-point amounts are modelled by exact rationals. Of a parsed instant only the
  year and the month are ever read.
\<close>

record datetime =
  year :: nat
  month :: nat

record builtins =
  py_float :: "string \<Rightarrow> rat option"
  py_int :: "string \<Rightarrow> int option"
  py_fromisoformat :: "string \<Rightarrow> datetime option"

text \<open>\<^verbatim>\<open>float(order.get(k, 0) or 0)\<close>: a missing or empty cell is the number 0.\<close>

definition float_field :: "builtins \<Rightarrow> order \<Rightarrow> string \<Rightarrow> rat option" where
  "float_field B row k =
     (case row k of None \<Rightarrow> Some 0
      | Some s \<Rightarrow> if s = [] then Some 0 else py_float B s)"

text \<open>\<^verbatim>\<open>int(order.get(k, 0) or 0)\<close>.\<close>

definition int_field :: "builtins \<Rightarrow> order \<Rightarrow> string \<Rightarrow> int option" where
  "int_field B row k =
     (case row k of None \<Rightarrow> Some 0
      | Some s \<Rightarrow> if s = [] then Some 0 else py_int B s)"

subsection \<open>Month keys\<close>

text \<open>\<^verbatim>\<open>purchase_date.replace('Z', '+00:00')\<close>\<close>

definition replace_Z :: "string \<Rightarrow> string" where
  "replace_Z s = concat (map (\<lambda>c. if c = CHR ''Z'' then ''+00:00'' else [c]) s)"

definition digit_char :: "nat \<Rightarrow> char" where
  "digit_char n = ''0123456789'' ! (n mod 10)"

fun dec :: "nat \<Rightarrow> string" where
  "dec n = (if n < 10 then [digit_char n] else dec (n div 10) @ [digit_char (n mod 10)])"

declare dec.simps [simp del]

definition zfill :: "nat \<Rightarrow> string \<Rightarrow> string" where
  "zfill w s = replicate (w - length s) (CHR ''0'') @ s"

text \<open>
  \<^verbatim>\<open>dt.strftime('%Y-%m')\<close>, as the library documents the two directives: the year in
  decimal, padded with zeros to four digits, and the month padded to two. (A platform
  whose C library leaves a year below 1000 unpadded differs from this on such years.)
\<close>

definition strftime_Y_m :: "datetime \<Rightarrow> string" where
  "strftime_Y_m dt = zfill 4 (dec (year dt)) @ ''-'' @ zfill 2 (dec (month dt))"

text \<open>
  The two lines
  \<^verbatim>\<open>dt = datetime.fromisoformat(purchase_date.replace('Z', '+00:00'))\<close> and
  \<^verbatim>\<open>month_key = dt.strftime('%Y-%m')\<close>; \<open>None\<close> when the first raises.
\<close>

definition month_key :: "builtins \<Rightarrow> string \<Rightarrow> string option" where
  "month_key B purchase_date =
     map_option strftime_Y_m (py_fromisoformat B (replace_Z purchase_date))"



definition is_digit :: "char \<Rightarrow> bool" where
  "is_digit c \<longleftrightarrow> c \<in> set ''0123456789''"


subsection \<open>Dictionaries\<close>

text \<open>
  A Python dictionary keeps its keys in insertion order, and \<^verbatim>\<open>list(d.values())\<close> and
  \<^verbatim>\<open>sorted(d.items())\<close> read that order, so a dictionary is an association list with
  distinct keys. \<open>dict_upd d f k\<close> is \<^verbatim>\<open>m[k] = f(m[k])\<close> on a \<^verbatim>\<open>defaultdict\<close> whose
  factory returns \<open>d\<close>: a key that is absent is appended with \<open>f d\<close>.
  \<open>dict_get d m k\<close> is \<^verbatim>\<open>m.get(k, d)\<close>.
\<close>

fun dict_upd :: "'v \<Rightarrow> ('v \<Rightarrow> 'v) \<Rightarrow> 'k \<Rightarrow> ('k \<times> 'v) list \<Rightarrow> ('k \<times> 'v) list" where
  "dict_upd d f k [] = [(k, f d)]"
| "dict_upd d f k ((k', v) # kvs) =
     (if k = k' then (k', f v) # kvs else (k', v) # dict_upd d f k kvs)"

definition dict_get :: "'v \<Rightarrow> ('k \<times> 'v) list \<Rightarrow> 'k \<Rightarrow> 'v" where
  "dict_get d m k = (case map_of m k of None \<Rightarrow> d | Some v \<Rightarrow> v)"

text \<open>
  \<^verbatim>\<open>dict(sorted(m.items()))\<close>: the keys of a dictionary are distinct, so the order of
  the pairs is the order of their keys.
\<close>

definition sorted_items :: "('k::linorder \<times> 'v) list \<Rightarrow> ('k \<times> 'v) list" where
  "sorted_items m = sort_key fst m"

section \<open>get_summary\<close>

record summary =
  total_orders :: nat
  by_status :: "(string \<times> nat) list"
  by_marketplace :: "(string \<times> nat) list"
  by_country :: "(string \<times> nat) list"
  by_fulfillment :: "(string \<times> nat) list"
  total_revenue :: rat
  total_tax :: rat
  total_shipping :: rat
  total_items_sold :: int

text \<open>
  The first \<^verbatim>\<open>try\<close> block of the loop body: the three amounts are parsed and added
  one after the other, and a \<^verbatim>\<open>ValueError\<close> leaves the block with what was added so far.
\<close>

definition summary_amounts :: "builtins \<Rightarrow> order \<Rightarrow> summary \<Rightarrow> summary" where
  "summary_amounts B row s =
     (case float_field B row ''item-price'' of
        None \<Rightarrow> s
      | Some item_price \<Rightarrow>
          let s1 = s\<lparr>total_revenue := total_revenue s + item_price\<rparr> in
          (case float_field B row ''item-tax'' of
             None \<Rightarrow> s1
           | Some item_tax \<Rightarrow>
               let s2 = s1\<lparr>total_tax := total_tax s1 + item_tax\<rparr> in
               (case float_field B row ''shipping-price'' of
                  None \<Rightarrow> s2
                | Some shipping_price \<Rightarrow>
                    s2\<lparr>total_shipping := total_shipping s2 + shipping_price\<rparr>)))"

definition summary_step :: "builtins \<Rightarrow> summary \<Rightarrow> order \<Rightarrow> summary" where
  "summary_step B s row =
     (let status = get_or row ''order-status'' ''Unknown'';
          s1 = s\<lparr>by_status := dict_upd 0 Suc status (by_status s)\<rparr>;
          marketplace = get_or row ''sales-channel'' ''Unknown'';
          s2 = s1\<lparr>by_marketplace := dict_upd 0 Suc marketplace (by_marketplace s1)\<rparr>;
          country = get_or row ''ship-country'' ''Unknown'';
          s3 = s2\<lparr>by_country := dict_upd 0 Suc country (by_country s2)\<rparr>;
          fulfillment = get_or row ''fulfillment-channel'' ''Unknown'';
          s4 = s3\<lparr>by_fulfillment := dict_upd 0 Suc fulfillment (by_fulfillment s3)\<rparr>;
          s5 = (if status = ''Shipped'' then summary_amounts B row s4 else s4)
      in case int_field B row ''quantity'' of
           None \<Rightarrow> s5
         | Some quantity \<Rightarrow> s5\<lparr>total_items_sold := total_items_sold s5 + quantity\<rparr>)"

definition summary_init :: "nat \<Rightarrow> summary" where
  "summary_init n =
     \<lparr>total_orders = n, by_status = [], by_marketplace = [], by_country = [],
      by_fulfillment = [], total_revenue = 0, total_tax = 0, total_shipping = 0,
      total_items_sold = 0\<rparr>"

definition get_summary :: "builtins \<Rightarrow> order list \<Rightarrow> summary" where
  "get_summary B orders = foldl (summary_step B) (summary_init (length orders)) orders"

section \<open>get_products_summary\<close>

text \<open>
  One entry of the \<^verbatim>\<open>products\<close> dictionary; the fields are the keys \<^verbatim>\<open>'name'\<close>,
  \<^verbatim>\<open>'sku'\<close>, \<^verbatim>\<open>'total_quantity'\<close>, \<^verbatim>\<open>'total_revenue'\<close> and \<^verbatim>\<open>'orders_count'\<close>.
\<close>

record product =
  p_name :: string
  p_sku :: string
  p_total_quantity :: int
  p_total_revenue :: rat
  p_orders_count :: nat

definition product_default :: product where
  "product_default =
     \<lparr>p_name = [], p_sku = [], p_total_quantity = 0, p_total_revenue = 0, p_orders_count = 0\<rparr>"

text \<open>
  What one row does to the entry of its SKU. The first read \<^verbatim>\<open>products[sku]\<close>
  creates the entry, and every later statement of the loop body writes to that entry.
\<close>

definition product_entry_step :: "builtins \<Rightarrow> order \<Rightarrow> string \<Rightarrow> product \<Rightarrow> product" where
  "product_entry_step B row sku p =
     (let status = get_or row ''order-status'' [];
          p1 = (if p_name p = [] then p\<lparr>p_name := get_or row ''product-name'' ''N/A''\<rparr> else p);
          p2 = p1\<lparr>p_sku := sku\<rparr>;
          p3 = p2\<lparr>p_orders_count := p_orders_count p2 + 1\<rparr>;
          p4 = (case int_field B row ''quantity'' of
                  None \<Rightarrow> p3
                | Some quantity \<Rightarrow> p3\<lparr>p_total_quantity := p_total_quantity p3 + quantity\<rparr>)
      in if status = ''Shipped'' then
           (case float_field B row ''item-price'' of
              None \<Rightarrow> p4
            | Some item_price \<Rightarrow> p4\<lparr>p_total_revenue := p_total_revenue p4 + item_price\<rparr>)
         else p4)"

definition products_step ::
  "builtins \<Rightarrow> (string \<times> product) list \<Rightarrow> order \<Rightarrow> (string \<times> product) list" where
  "products_step B products row =
     (let sku = get_or row ''sku'' ''Unknown'' in
      if sku = [] \<or> sku = ''Unknown'' then products
      else dict_upd product_default (product_entry_step B row sku) sku products)"

definition products_dict :: "builtins \<Rightarrow> order list \<Rightarrow> (string \<times> product) list" where
  "products_dict B orders = foldl (products_step B) [] orders"

text \<open>
  \<^verbatim>\<open>products_list.sort(key=lambda x: x['total_revenue'], reverse=True)\<close>: the
  library's sort is stable, also with \<^verbatim>\<open>reverse=True\<close>; it is the stable insertion
  sort on the negated key.
\<close>

definition sort_by_revenue_reverse :: "product list \<Rightarrow> product list" where
  "sort_by_revenue_reverse ps = sort_key (\<lambda>x. - p_total_revenue x) ps"

definition get_products_summary :: "builtins \<Rightarrow> order list \<Rightarrow> product list" where
  "get_products_summary B orders = sort_by_revenue_reverse (map snd (products_dict B orders))"


section \<open>get_monthly_trends\<close>

text \<open>
  One entry of the \<^verbatim>\<open>monthly\<close> dictionary; field \<open>m_x\<close> is the key \<^verbatim>\<open>'x'\<close>.
\<close>

record month_stats =
  m_orders :: nat
  m_revenue :: rat
  m_items :: int
  m_shipped :: nat
  m_cancelled :: nat
  m_pending :: nat

definition month_default :: month_stats where
  "month_default = \<lparr>m_orders = 0, m_revenue = 0, m_items = 0, m_shipped = 0, m_cancelled = 0, m_pending = 0\<rparr>"

text \<open>
  The statements of the \<^verbatim>\<open>try\<close> block after the month key is known, all on the
  entry \<^verbatim>\<open>monthly[month_key]\<close>. A quantity or a price that does not parse raises inside
  the block, and the \<^verbatim>\<open>except\<close> clause goes on to the next row: what was written before
  the raise stays, what comes after it is not run.
\<close>

definition month_entry_step :: "builtins \<Rightarrow> order \<Rightarrow> month_stats \<Rightarrow> month_stats" where
  "month_entry_step B row m =
     (let status = get_or row ''order-status'' [];
          m1 = m\<lparr>m_orders := m_orders m + 1\<rparr>;
          m2 = (if status = ''Shipped'' then m1\<lparr>m_shipped := m_shipped m1 + 1\<rparr>
                else if status = ''Cancelled'' then m1\<lparr>m_cancelled := m_cancelled m1 + 1\<rparr>
                else if status = ''Pending'' then m1\<lparr>m_pending := m_pending m1 + 1\<rparr>
                else m1)
      in case int_field B row ''quantity'' of
           None \<Rightarrow> m2
         | Some quantity \<Rightarrow>
             let m3 = m2\<lparr>m_items := m_items m2 + quantity\<rparr> in
             if status = ''Shipped'' then
               (case float_field B row ''item-price'' of
                  None \<Rightarrow> m3
                | Some item_price \<Rightarrow> m3\<lparr>m_revenue := m_revenue m3 + item_price\<rparr>)
             else m3)"

definition monthly_step ::
  "builtins \<Rightarrow> (string \<times> month_stats) list \<Rightarrow> order \<Rightarrow> (string \<times> month_stats) list" where
  "monthly_step B monthly row =
     (let purchase_date = get_or row ''purchase-date'' [] in
      if purchase_date = [] then monthly
      else (case month_key B purchase_date of
              None \<Rightarrow> monthly
            | Some k \<Rightarrow> dict_upd month_default (month_entry_step B row) k monthly))"

definition monthly_dict :: "builtins \<Rightarrow> order list \<Rightarrow> (string \<times> month_stats) list" where
  "monthly_dict B orders = foldl (monthly_step B) [] orders"

definition get_monthly_trends :: "builtins \<Rightarrow> order list \<Rightarrow> (string \<times> month_stats) list" where
  "get_monthly_trends B orders = sorted_items (monthly_dict B orders)"

section \<open>get_fba_fbm_analysis and get_business_analysis\<close>

text \<open>
  The two functions are the same code but for the test that classifies a row and for
  the names of the four keys of the result: \<^verbatim>\<open>'fba'\<close>, \<^verbatim>\<open>'fbm'\<close>, \<^verbatim>\<open>'monthly_fba'\<close>,
  \<^verbatim>\<open>'monthly_fbm'\<close> in the first, \<^verbatim>\<open>'business'\<close>, \<^verbatim>\<open>'consumer'\<close>, \<^verbatim>\<open>'monthly_business'\<close>,
  \<^verbatim>\<open>'monthly_consumer'\<close> in the second. The loop body is modelled once, with the test
  as an argument; \<open>in_class\<close> is the class of the rows that pass the test (\<^verbatim>\<open>'fba'\<close>,
  \<^verbatim>\<open>'business'\<close>) and \<open>out_class\<close> the class of the others.
  Field \<open>c_x\<close> is the key \<^verbatim>\<open>'x'\<close> of a class, \<open>s_x\<close> the key \<^verbatim>\<open>'x'\<close> of an entry of a
  monthly sub-series.
\<close>

record class_stats =
  c_orders :: nat
  c_revenue :: rat
  c_items :: int
  c_cancelled :: nat

record series_stats =
  s_orders :: nat
  s_revenue :: rat

record analysis =
  in_class :: class_stats
  out_class :: class_stats
  monthly_in :: "(string \<times> series_stats) list"
  monthly_out :: "(string \<times> series_stats) list"

definition class_default :: class_stats where
  "class_default = \<lparr>c_orders = 0, c_revenue = 0, c_items = 0, c_cancelled = 0\<rparr>"

definition series_default :: series_stats where
  "series_default = \<lparr>s_orders = 0, s_revenue = 0\<rparr>"

definition analysis_init :: analysis where
  "analysis_init =
     \<lparr>in_class = class_default, out_class = class_default, monthly_in = [], monthly_out = []\<rparr>"

text \<open>\<^verbatim>\<open>analysis[category][...] = ...\<close>\<close>

definition upd_category :: "bool \<Rightarrow> (class_stats \<Rightarrow> class_stats) \<Rightarrow> analysis \<Rightarrow> analysis" where
  "upd_category is_in f a =
     (if is_in then a\<lparr>in_class := f (in_class a)\<rparr> else a\<lparr>out_class := f (out_class a)\<rparr>)"

text \<open>
  The \<^verbatim>\<open>try\<close> block under \<^verbatim>\<open>if status == 'Shipped'\<close>: the price is parsed first, so a
  price that does not parse leaves the block before the class revenue and the monthly
  sub-series are touched; a date that does not parse leaves it after the class revenue
  was added.
\<close>

definition analysis_revenue :: "builtins \<Rightarrow> bool \<Rightarrow> order \<Rightarrow> analysis \<Rightarrow> analysis" where
  "analysis_revenue B is_in row a =
     (let purchase_date = get_or row ''purchase-date'' [] in
      case float_field B row ''item-price'' of
        None \<Rightarrow> a
      | Some item_price \<Rightarrow>
          let a1 = upd_category is_in (\<lambda>c. c\<lparr>c_revenue := c_revenue c + item_price\<rparr>) a;
              bump = (\<lambda>e. e\<lparr>s_orders := s_orders e + 1, s_revenue := s_revenue e + item_price\<rparr>)
          in if purchase_date \<noteq> [] then
               (case month_key B purchase_date of
                  None \<Rightarrow> a1
                | Some k \<Rightarrow>
                    if is_in then a1\<lparr>monthly_in := dict_upd series_default bump k (monthly_in a1)\<rparr>
                    else a1\<lparr>monthly_out := dict_upd series_default bump k (monthly_out a1)\<rparr>)
             else a1)"

definition analysis_step :: "builtins \<Rightarrow> (order \<Rightarrow> bool) \<Rightarrow> analysis \<Rightarrow> order \<Rightarrow> analysis" where
  "analysis_step B classify a row =
     (let is_in = classify row;
          status = get_or row ''order-status'' [];
          a1 = upd_category is_in (\<lambda>c. c\<lparr>c_orders := c_orders c + 1\<rparr>) a;
          a2 = (if status = ''Cancelled''
                then upd_category is_in (\<lambda>c. c\<lparr>c_cancelled := c_cancelled c + 1\<rparr>) a1 else a1);
          a3 = (case int_field B row ''quantity'' of
                  None \<Rightarrow> a2
                | Some quantity \<Rightarrow> upd_category is_in (\<lambda>c. c\<lparr>c_items := c_items c + quantity\<rparr>) a2)
      in if status = ''Shipped'' then analysis_revenue B is_in row a3 else a3)"

definition analysis_loop :: "builtins \<Rightarrow> (order \<Rightarrow> bool) \<Rightarrow> order list \<Rightarrow> analysis" where
  "analysis_loop B classify orders = foldl (analysis_step B classify) analysis_init orders"

text \<open>The two \<^verbatim>\<open>dict(sorted(...))\<close> lines after the loop.\<close>

definition analysis_finish :: "analysis \<Rightarrow> analysis" where
  "analysis_finish a =
     a\<lparr>monthly_in := sorted_items (monthly_in a), monthly_out := sorted_items (monthly_out a)\<rparr>"

text \<open>\<^verbatim>\<open>is_fba = fulfillment == 'Amazon'\<close>\<close>

definition is_fba :: "order \<Rightarrow> bool" where
  "is_fba row \<longleftrightarrow> get_or row ''fulfillment-channel'' ''Unknown'' = ''Amazon''"

definition get_fba_fbm_analysis :: "builtins \<Rightarrow> order list \<Rightarrow> analysis" where
  "get_fba_fbm_analysis B orders = analysis_finish (analysis_loop B is_fba orders)"

abbreviation fbm :: "analysis \<Rightarrow> class_stats" where "fbm \<equiv> out_class"

text \<open>
  \<^verbatim>\<open>str.strip()\<close> and \<^verbatim>\<open>str.lower()\<close> on ASCII text: the characters that
  \<^verbatim>\<open>str.isspace\<close> accepts are the tab, the line feed, the vertical tab, the form feed,
  the carriage return, the four separators 28 to 31 and the blank.
\<close>

definition py_isspace :: "char \<Rightarrow> bool" where
  "py_isspace c \<longleftrightarrow>
     c \<in> set [CHR 0x09, CHR 0x0A, CHR 0x0B, CHR 0x0C, CHR 0x0D,
              CHR 0x1C, CHR 0x1D, CHR 0x1E, CHR 0x1F, CHR 0x20]"

definition strip :: "string \<Rightarrow> string" where
  "strip s = rev (dropWhile py_isspace (rev (dropWhile py_isspace s)))"

definition lower_char :: "char \<Rightarrow> char" where
  "lower_char c =
     (if CHR ''A'' \<le> c \<and> c \<le> CHR ''Z'' then char_of (of_char c + (32::nat)) else c)"

definition lower :: "string \<Rightarrow> string" where
  "lower s = map lower_char s"

text \<open>\<^verbatim>\<open>is_business = order.get('is-business-order', '').strip().lower() == 'true'\<close>\<close>

definition is_business :: "order \<Rightarrow> bool" where
  "is_business row \<longleftrightarrow> lower (strip (get_or row ''is-business-order'' [])) = ''true''"

definition get_business_analysis :: "builtins \<Rightarrow> order list \<Rightarrow> analysis" where
  "get_business_analysis B orders = analysis_finish (analysis_loop B is_business orders)"

abbreviation business :: "analysis \<Rightarrow> class_stats" where "business \<equiv> in_class"

section \<open>get_promotions_analysis\<close>

text \<open>
  An entry of \<^verbatim>\<open>by_promotion_type\<close>. During the loop it holds \<^verbatim>\<open>'count'\<close> and the set
  \<^verbatim>\<open>'skus'\<close>; the pass after the loop adds \<^verbatim>\<open>'unique_skus'\<close> and turns the set into a
  list. The set is kept as a duplicate-free list in the order of first insertion; the
  order in which Python lists a set is not specified, and nothing below depends on it.
\<close>

record promo_entry =
  pe_count :: nat
  pe_skus :: "string list"
  pe_unique_skus :: nat

record 'e promotions =
  total_with_promotions :: nat
  by_promotion_type :: "(string \<times> 'e) list"
  skus_on_promotion :: "(string \<times> nat) list"
  monthly_promotions :: "(string \<times> nat) list"

text \<open>\<^verbatim>\<open>skus.add(sku)\<close>\<close>

definition set_add :: "'a \<Rightarrow> 'a list \<Rightarrow> 'a list" where
  "set_add x xs = (if x \<in> set xs then xs else xs @ [x])"

definition promotions_init :: "(nat \<times> string list) promotions" where
  "promotions_init =
     \<lparr>total_with_promotions = 0, by_promotion_type = [], skus_on_promotion = [],
      monthly_promotions = []\<rparr>"

definition promotions_step ::
  "builtins \<Rightarrow> (nat \<times> string list) promotions \<Rightarrow> order \<Rightarrow> (nat \<times> string list) promotions" where
  "promotions_step B a row =
     (let promo_id = strip (get_or row ''promotion-ids'' []);
          sku = get_or row ''sku'' ''Unknown'';
          purchase_date = get_or row ''purchase-date'' []
      in if promo_id \<noteq> [] then
           let a1 = a\<lparr>total_with_promotions := total_with_promotions a + 1\<rparr>;
               a2 = a1\<lparr>by_promotion_type :=
                        dict_upd (0, []) (\<lambda>(c, skus). (c + 1, set_add sku skus)) promo_id
                          (by_promotion_type a1)\<rparr>;
               a3 = a2\<lparr>skus_on_promotion := dict_upd 0 Suc sku (skus_on_promotion a2)\<rparr>
           in if purchase_date \<noteq> [] then
                (case month_key B purchase_date of
                   None \<Rightarrow> a3
                 | Some k \<Rightarrow> a3\<lparr>monthly_promotions := dict_upd 0 Suc k (monthly_promotions a3)\<rparr>)
              else a3
         else a)"

definition promotions_loop :: "builtins \<Rightarrow> order list \<Rightarrow> (nat \<times> string list) promotions" where
  "promotions_loop B orders = foldl (promotions_step B) promotions_init orders"

definition promotions_finish :: "(nat \<times> string list) promotions \<Rightarrow> promo_entry promotions" where
  "promotions_finish a =
     \<lparr>total_with_promotions = total_with_promotions a,
      by_promotion_type =
        map (\<lambda>(promo_id, (c, skus)).
               (promo_id, \<lparr>pe_count = c, pe_skus = skus, pe_unique_skus = length skus\<rparr>))
            (by_promotion_type a),
      skus_on_promotion = skus_on_promotion a,
      monthly_promotions = sorted_items (monthly_promotions a)\<rparr>"

definition get_promotions_analysis :: "builtins \<Rightarrow> order list \<Rightarrow> promo_entry promotions" where
  "get_promotions_analysis B orders = promotions_finish (promotions_loop B orders)"

section \<open>get_market_monthly_analysis\<close>

definition market_step ::
  "builtins \<Rightarrow> (string \<times> (string \<times> rat) list) list \<Rightarrow> order \<Rightarrow>
   (string \<times> (string \<times> rat) list) list" where
  "market_step B a row =
     (if row ''order-status'' \<noteq> Some ''Shipped'' then a
      else
        let country = get_or row ''ship-country'' ''Unknown'';
            purchase_date = get_or row ''purchase-date'' []
        in if purchase_date \<noteq> [] then
             (case month_key B purchase_date of
                None \<Rightarrow> a
              | Some k \<Rightarrow>
                  (case float_field B row ''item-price'' of
                     None \<Rightarrow> a
                   | Some item_price \<Rightarrow>
                       dict_upd [] (dict_upd 0 (\<lambda>v. v + item_price) k) country a))
           else a)"

definition get_market_monthly_analysis ::
  "builtins \<Rightarrow> order list \<Rightarrow> (string \<times> (string \<times> rat) list) list" where
  "get_market_monthly_analysis B orders =
     map (\<lambda>(country, months). (country, sorted_items months)) (foldl (market_step B) [] orders)"

section \<open>A concrete instance of the library calls\<close>

text \<open>
  The closed instances below need one concrete \<open>B\<close>. \<open>sample_builtins\<close> reads a
  fragment of what the library reads: digit strings as integers, digit strings with an
  optional fraction as amounts, and instants written \<^verbatim>\<open>YYYY-MM-DDTHH:MM:SS+00:00\<close> with
  a day up to 28. On these it returns what the library returns, and the other strings
  used below (\<^verbatim>\<open>abc\<close> and \<^verbatim>\<open>not-a-date\<close>) are rejected by the library as well.
\<close>

definition nat_of_digits :: "string \<Rightarrow> nat option" where
  "nat_of_digits s =
     (if s \<noteq> [] \<and> list_all is_digit s
      then Some (foldl (\<lambda>a c. 10 * a + (of_char c - 48)) 0 s) else None)"

definition sample_int :: "string \<Rightarrow> int option" where
  "sample_int s = map_option int (nat_of_digits s)"

definition sample_float :: "string \<Rightarrow> rat option" where
  "sample_float s =
     (let whole = takeWhile (\<lambda>c. c \<noteq> CHR ''.'') s;
          rest = dropWhile (\<lambda>c. c \<noteq> CHR ''.'') s
      in case nat_of_digits whole of
           None \<Rightarrow> None
         | Some n \<Rightarrow>
             if rest = [] then Some (of_nat n)
             else (case nat_of_digits (tl rest) of
                     None \<Rightarrow> None
                   | Some f \<Rightarrow> Some (of_nat n + of_nat f / 10 ^ length (tl rest))))"

definition two_digits :: "string \<Rightarrow> nat \<Rightarrow> nat option" where
  "two_digits s i = nat_of_digits (take 2 (drop i s))"

definition sample_fromisoformat :: "string \<Rightarrow> datetime option" where
  "sample_fromisoformat s =
     (if length s = 25 \<and> s ! 4 = CHR ''-'' \<and> s ! 7 = CHR ''-'' \<and> s ! 10 = CHR ''T'' \<and>
         s ! 13 = CHR '':'' \<and> s ! 16 = CHR '':'' \<and> drop 19 s = ''+00:00''
      then
        (case (nat_of_digits (take 4 s), two_digits s 5, two_digits s 8,
               two_digits s 11, two_digits s 14, two_digits s 17) of
           (Some y, Some mo, Some d, Some hh, Some mi, Some ss) \<Rightarrow>
             if 1 \<le> y \<and> 1 \<le> mo \<and> mo \<le> 12 \<and> 1 \<le> d \<and> d \<le> 28 \<and> hh \<le> 23 \<and> mi \<le> 59 \<and> ss \<le> 59
             then Some \<lparr>year = y, month = mo\<rparr> else None
         | _ \<Rightarrow> None)
      else None)"

definition sample_builtins :: builtins where
  "sample_builtins =
     \<lparr>py_float = sample_float, py_int = sample_int, py_fromisoformat = sample_fromisoformat\<rparr>"

section \<open>Quantities the properties are stated with\<close>

text \<open>
  The tests \<^verbatim>\<open>status == 'Shipped'\<close> of the aggregators read the status with different
  defaults (\<^verbatim>\<open>'Unknown'\<close>, \<^verbatim>\<open>''\<close> or none); each of them holds exactly when the cell is
  there and is \<^verbatim>\<open>Shipped\<close>.
\<close>

definition is_shipped :: "order \<Rightarrow> bool" where
  "is_shipped row \<longleftrightarrow> row ''order-status'' = Some ''Shipped''"

text \<open>The item price of a shipped row when it parses, and 0 otherwise.\<close>

definition shipped_revenue :: "builtins \<Rightarrow> order \<Rightarrow> rat" where
  "shipped_revenue B row =
     (if is_shipped row
      then (case float_field B row ''item-price'' of None \<Rightarrow> 0 | Some p \<Rightarrow> p) else 0)"

text \<open>The quantity of a row when it parses, and 0 otherwise.\<close>

definition parsed_quantity :: "builtins \<Rightarrow> order \<Rightarrow> int" where
  "parsed_quantity B row = (case int_field B row ''quantity'' of None \<Rightarrow> 0 | Some q \<Rightarrow> q)"


text \<open>
  The month bucket of a row in \<^verbatim>\<open>get_monthly_trends\<close>: none when the purchase date is
  missing or empty (\<^verbatim>\<open>if not purchase_date: continue\<close>) or does not parse.
\<close>

definition row_month :: "builtins \<Rightarrow> order \<Rightarrow> string option" where
  "row_month B row =
     (if get_or row ''purchase-date'' [] = [] then None
      else month_key B (get_or row ''purchase-date'' []))"


section \<open>Sample rows\<close>

text \<open>
  Rows for the closed instances of the theorems below. Each has the order id without
  which the loader drops a row; the other columns are the ones the instance is about.
\<close>

definition row_shipped :: order where
  "row_shipped =
     [''amazon-order-id'' \<mapsto> ''171-1000037-2000091'',
      ''order-status'' \<mapsto> ''Shipped'', ''purchase-date'' \<mapsto> ''2024-03-05T10:00:00Z'',
      ''item-price'' \<mapsto> ''10'', ''quantity'' \<mapsto> ''2'', ''fulfillment-channel'' \<mapsto> ''Amazon'',
      ''sku'' \<mapsto> ''A1'']"


definition row_no_date :: order where
  "row_no_date =
     [''amazon-order-id'' \<mapsto> ''171-1000111-2000273'',
      ''order-status'' \<mapsto> ''Shipped'', ''purchase-date'' \<mapsto> ''not-a-date'',
      ''item-price'' \<mapsto> ''7'', ''quantity'' \<mapsto> ''3'', ''sales-channel'' \<mapsto> ''Amazon.it'',
      ''ship-country'' \<mapsto> ''IT'', ''fulfillment-channel'' \<mapsto> ''Merchant'']"

definition row_unshipped :: order where
  "row_unshipped =
     [''amazon-order-id'' \<mapsto> ''171-1000148-2000364'',
      ''order-status'' \<mapsto> ''Unshipped'', ''purchase-date'' \<mapsto> ''2024-03-21T17:45:10Z'',
      ''item-price'' \<mapsto> ''4'', ''quantity'' \<mapsto> ''1'']"

definition row_cancelled :: order where
  "row_cancelled =
     [''amazon-order-id'' \<mapsto> ''171-1000185-2000455'',
      ''order-status'' \<mapsto> ''Cancelled'', ''purchase-date'' \<mapsto> ''2023-11-20T23:59:59Z'',
      ''item-price'' \<mapsto> ''5'', ''quantity'' \<mapsto> ''1'']"





definition row_bad_tax :: order where
  "row_bad_tax =
     [''amazon-order-id'' \<mapsto> ''171-1000370-2000910'',
      ''order-status'' \<mapsto> ''Shipped'', ''purchase-date'' \<mapsto> ''2024-03-05T10:00:00Z'',
      ''item-price'' \<mapsto> ''10'', ''item-tax'' \<mapsto> ''abc'', ''shipping-price'' \<mapsto> ''5'',
      ''quantity'' \<mapsto> ''2'']"

definition row_bad_quantity :: order where
  "row_bad_quantity =
     [''amazon-order-id'' \<mapsto> ''171-1000407-2001001'',
      ''order-status'' \<mapsto> ''Shipped'', ''purchase-date'' \<mapsto> ''2024-03-05T10:00:00Z'',
      ''item-price'' \<mapsto> ''40'', ''quantity'' \<mapsto> ''abc'']"

section \<open>Properties of the dictionary operations\<close>

lemma dict_get_dict_upd:
  "dict_get d (dict_upd d f k m) k' = (if k' = k then f (dict_get d m k) else dict_get d m k')"
  by (induction m) (auto simp: dict_get_def)

lemma map_fst_dict_upd:
  "map fst (dict_upd d f k m) = (if k \<in> set (map fst m) then map fst m else map fst m @ [k])"
  by (induction m) (auto simp: rev_image_eqI)

lemma keys_dict_upd: "set (map fst (dict_upd d f k m)) = insert k (set (map fst m))"
  by (auto simp: map_fst_dict_upd)

lemma distinct_dict_upd: "distinct (map fst m) \<Longrightarrow> distinct (map fst (dict_upd d f k m))"
  by (simp add: map_fst_dict_upd)

lemma sum_dict_upd_Suc: "sum_list (map snd (dict_upd 0 Suc k m)) = Suc (sum_list (map snd m))"
  by (induction m) auto

text \<open>A dictionary of counters, filled by a loop that bumps the counter of \<open>key row\<close>.\<close>

lemma count_loop_sum:
  "sum_list (map snd (foldl (\<lambda>m row. dict_upd 0 Suc (key row) m) m0 rows)) =
     sum_list (map snd m0) + length rows"
  by (induction rows arbitrary: m0) (simp_all add: sum_dict_upd_Suc)

lemma count_loop_get:
  "dict_get 0 (foldl (\<lambda>m row. dict_upd 0 Suc (key row) m) m0 rows) k =
     dict_get 0 m0 k + length (filter (\<lambda>row. key row = k) rows)"
  by (induction rows arbitrary: m0) (auto simp: dict_get_dict_upd)

section \<open>Properties of get_summary\<close>

lemma summary_amounts_counts [simp]:
  "total_orders (summary_amounts B row s) = total_orders s"
  "by_status (summary_amounts B row s) = by_status s"
  "by_marketplace (summary_amounts B row s) = by_marketplace s"
  "by_country (summary_amounts B row s) = by_country s"
  "by_fulfillment (summary_amounts B row s) = by_fulfillment s"
  "total_items_sold (summary_amounts B row s) = total_items_sold s"
  by (simp_all add: summary_amounts_def Let_def split: option.splits)

lemma summary_step_counts:
  "total_orders (summary_step B s row) = total_orders s"
  "by_status (summary_step B s row) =
     dict_upd 0 Suc (get_or row ''order-status'' ''Unknown'') (by_status s)"
  "by_marketplace (summary_step B s row) =
     dict_upd 0 Suc (get_or row ''sales-channel'' ''Unknown'') (by_marketplace s)"
  "by_country (summary_step B s row) =
     dict_upd 0 Suc (get_or row ''ship-country'' ''Unknown'') (by_country s)"
  "by_fulfillment (summary_step B s row) =
     dict_upd 0 Suc (get_or row ''fulfillment-channel'' ''Unknown'') (by_fulfillment s)"
  by (simp_all add: summary_step_def Let_def split: option.splits)

lemma summary_loop_counts:
  "total_orders (foldl (summary_step B) s rows) = total_orders s"
  "by_status (foldl (summary_step B) s rows) =
     foldl (\<lambda>m row. dict_upd 0 Suc (get_or row ''order-status'' ''Unknown'') m) (by_status s) rows"
  "by_marketplace (foldl (summary_step B) s rows) =
     foldl (\<lambda>m row. dict_upd 0 Suc (get_or row ''sales-channel'' ''Unknown'') m)
       (by_marketplace s) rows"
  "by_country (foldl (summary_step B) s rows) =
     foldl (\<lambda>m row. dict_upd 0 Suc (get_or row ''ship-country'' ''Unknown'') m)
       (by_country s) rows"
  "by_fulfillment (foldl (summary_step B) s rows) =
     foldl (\<lambda>m row. dict_upd 0 Suc (get_or row ''fulfillment-channel'' ''Unknown'') m)
       (by_fulfillment s) rows"
  by (induction rows arbitrary: s) (simp_all add: summary_step_counts)

lemma get_summary_total_orders: "total_orders (get_summary B orders) = length orders"
  by (simp add: get_summary_def summary_loop_counts summary_init_def)

text \<open>
  Claim C5: for every input collection, the counts of \<open>by_status\<close>, summed over all its
  keys, equal \<open>total_orders\<close>.
\<close>

theorem by_status_sums_to_total_orders:
  "sum_list (map snd (by_status (get_summary B orders))) = total_orders (get_summary B orders)"
  by (simp add: get_summary_def summary_loop_counts count_loop_sum summary_init_def)

section \<open>The empty collection\<close>

text \<open>
  Claim C8: on the empty collection each of the seven aggregators returns its result
  with every counter and amount zero and every dictionary and list empty. (No aggregator
  has a failing branch: each is a total function of the rows.)
\<close>

theorem aggregators_on_empty_input:
  "get_summary B [] =
     \<lparr>total_orders = 0, by_status = [], by_marketplace = [], by_country = [],
      by_fulfillment = [], total_revenue = 0, total_tax = 0, total_shipping = 0,
      total_items_sold = 0\<rparr> \<and>
   get_products_summary B [] = [] \<and>
   get_monthly_trends B [] = [] \<and>
   get_fba_fbm_analysis B [] =
     \<lparr>in_class = \<lparr>c_orders = 0, c_revenue = 0, c_items = 0, c_cancelled = 0\<rparr>,
      out_class = \<lparr>c_orders = 0, c_revenue = 0, c_items = 0, c_cancelled = 0\<rparr>,
      monthly_in = [], monthly_out = []\<rparr> \<and>
   get_business_analysis B [] =
     \<lparr>in_class = \<lparr>c_orders = 0, c_revenue = 0, c_items = 0, c_cancelled = 0\<rparr>,
      out_class = \<lparr>c_orders = 0, c_revenue = 0, c_items = 0, c_cancelled = 0\<rparr>,
      monthly_in = [], monthly_out = []\<rparr> \<and>
   get_promotions_analysis B [] =
     \<lparr>total_with_promotions = 0, by_promotion_type = [], skus_on_promotion = [],
      monthly_promotions = []\<rparr> \<and>
   get_market_monthly_analysis B [] = []"
  by (simp add: get_summary_def summary_init_def get_products_summary_def products_dict_def
      sort_by_revenue_reverse_def get_monthly_trends_def monthly_dict_def sorted_items_def
      get_fba_fbm_analysis_def get_business_analysis_def analysis_loop_def analysis_finish_def
      analysis_init_def class_default_def get_promotions_analysis_def promotions_loop_def
      promotions_finish_def promotions_init_def get_market_monthly_analysis_def)

lemma status_is_shipped:
  "get_or row ''order-status'' ''Unknown'' = ''Shipped'' \<longleftrightarrow> is_shipped row"
  "get_or row ''order-status'' [] = ''Shipped'' \<longleftrightarrow> is_shipped row"
  by (auto simp: get_or_def is_shipped_def split: option.splits)

lemma summary_amounts_revenue:
  "total_revenue (summary_amounts B row s) =
     total_revenue s + (case float_field B row ''item-price'' of None \<Rightarrow> 0 | Some p \<Rightarrow> p)"
  by (simp add: summary_amounts_def Let_def split: option.splits)

lemma summary_step_totals:
  "total_revenue (summary_step B s row) = total_revenue s + shipped_revenue B row"
  "total_items_sold (summary_step B s row) = total_items_sold s + parsed_quantity B row"
  by (simp_all add: summary_step_def Let_def status_is_shipped shipped_revenue_def
      parsed_quantity_def summary_amounts_revenue split: option.splits)

lemma summary_loop_totals:
  "total_revenue (foldl (summary_step B) s rows) =
     total_revenue s + sum_list (map (shipped_revenue B) rows)"
  "total_items_sold (foldl (summary_step B) s rows) =
     total_items_sold s + sum_list (map (parsed_quantity B) rows)"
  by (induction rows arbitrary: s) (simp_all add: summary_step_totals)

lemma get_summary_total_revenue:
  "total_revenue (get_summary B orders) = sum_list (map (shipped_revenue B) orders)"
  by (simp add: get_summary_def summary_loop_totals summary_init_def)

lemma get_summary_total_items:
  "total_items_sold (get_summary B orders) = sum_list (map (parsed_quantity B) orders)"
  by (simp add: get_summary_def summary_loop_totals summary_init_def)

section \<open>Properties of the two binary analyses\<close>

lemma upd_category_fields [simp]:
  "in_class (upd_category b f a) = (if b then f (in_class a) else in_class a)"
  "out_class (upd_category b f a) = (if b then out_class a else f (out_class a))"
  "monthly_in (upd_category b f a) = monthly_in a"
  "monthly_out (upd_category b f a) = monthly_out a"
  by (simp_all add: upd_category_def)




lemma analysis_finish_classes [simp]:
  "in_class (analysis_finish a) = in_class a"
  "out_class (analysis_finish a) = out_class a"
  by (simp_all add: analysis_finish_def)














section \<open>Properties of get_monthly_trends\<close>

lemma monthly_step_row_month:
  "monthly_step B m row =
     (case row_month B row of
        None \<Rightarrow> m
      | Some k \<Rightarrow> dict_upd month_default (month_entry_step B row) k m)"
  by (simp add: monthly_step_def row_month_def Let_def)

lemma foldl_invariant:
  assumes "P s" and "\<And>s x. P s \<Longrightarrow> P (f s x)"
  shows "P (foldl f s xs)"
  using assms(1) by (induction xs arbitrary: s) (simp_all add: assms(2))

lemma distinct_monthly_dict: "distinct (map fst (monthly_dict B orders))"
  unfolding monthly_dict_def
  by (rule foldl_invariant) (simp_all add: monthly_step_row_month distinct_dict_upd split: option.splits)

lemma distinct_map_sort_key:
  "distinct (map f (sort_key f xs)) = distinct (map f xs)"
  by (simp add: distinct_map distinct_sort set_sort)

lemma sorted_items_keys:
  assumes "distinct (map fst m)"
  shows "sorted_wrt (<) (map fst (sorted_items m))" and "distinct (map fst (sorted_items m))"
  using assms
  by (simp_all add: sorted_items_def strict_sorted_iff sorted_sort_key distinct_map_sort_key)

lemma map_of_sorted_items:
  assumes "distinct (map fst m)"
  shows "map_of (sorted_items m) = map_of m"
proof -
  have "distinct (map fst (sorted_items m))"
    using assms by (rule sorted_items_keys)
  then show ?thesis
    using assms by (simp add: map_of_inject_set sorted_items_def set_sort)
qed

lemma dict_get_sorted_items:
  "distinct (map fst m) \<Longrightarrow> dict_get d (sorted_items m) k = dict_get d m k"
  by (simp add: dict_get_def map_of_sorted_items)

subsection \<open>The form of a month key\<close>















subsection \<open>The counters of a month\<close>

lemma month_entry_step_counters:
  "m_orders (month_entry_step B row m) = m_orders m + 1"
  "m_shipped (month_entry_step B row m) =
     m_shipped m + (if get_or row ''order-status'' [] = ''Shipped'' then 1 else 0)"
  "m_cancelled (month_entry_step B row m) =
     m_cancelled m + (if get_or row ''order-status'' [] = ''Cancelled'' then 1 else 0)"
  "m_pending (month_entry_step B row m) =
     m_pending m + (if get_or row ''order-status'' [] = ''Pending'' then 1 else 0)"
  by (simp_all add: month_entry_step_def Let_def split: option.splits)

lemma month_entry_step_bound:
  "m_shipped m + m_cancelled m + m_pending m \<le> m_orders m \<Longrightarrow>
     m_shipped (month_entry_step B row m) + m_cancelled (month_entry_step B row m) +
     m_pending (month_entry_step B row m) \<le> m_orders (month_entry_step B row m)"
  by (simp add: month_entry_step_counters)

lemma list_all_dict_upd:
  assumes "P d" and "\<And>v. P v \<Longrightarrow> P (f v)" and "list_all (\<lambda>(k, v). P v) m"
  shows "list_all (\<lambda>(k, v). P v) (dict_upd d f k m)"
  using assms(3) by (induction m) (auto simp: assms(1,2))

lemma monthly_dict_bound:
  "list_all (\<lambda>(k, m). m_shipped m + m_cancelled m + m_pending m \<le> m_orders m)
     (monthly_dict B orders)"
  unfolding monthly_dict_def
proof (rule foldl_invariant)
  show "list_all (\<lambda>(k, m). m_shipped m + m_cancelled m + m_pending m \<le> m_orders m) []"
    by simp
next
  fix s :: "(string \<times> month_stats) list" and row
  assume "list_all (\<lambda>(k, m). m_shipped m + m_cancelled m + m_pending m \<le> m_orders m) s"
  then show "list_all (\<lambda>(k, m). m_shipped m + m_cancelled m + m_pending m \<le> m_orders m)
      (monthly_step B s row)"
    unfolding monthly_step_row_month
    by (auto split: option.splits intro!: list_all_dict_upd month_entry_step_bound
        simp: month_default_def)
qed

lemma monthly_loop_get:
  "dict_get month_default (foldl (monthly_step B) m rows) k =
     foldl (\<lambda>v row. month_entry_step B row v) (dict_get month_default m k)
       (filter (\<lambda>row. row_month B row = Some k) rows)"
  by (induction rows arbitrary: m)
    (auto simp: monthly_step_row_month dict_get_dict_upd split: option.splits)

lemma entry_loop_counters:
  "m_orders (foldl (\<lambda>v row. month_entry_step B row v) v rows) = m_orders v + length rows"
  "m_shipped (foldl (\<lambda>v row. month_entry_step B row v) v rows) =
     m_shipped v + length (filter (\<lambda>row. get_or row ''order-status'' [] = ''Shipped'') rows)"
  "m_cancelled (foldl (\<lambda>v row. month_entry_step B row v) v rows) =
     m_cancelled v + length (filter (\<lambda>row. get_or row ''order-status'' [] = ''Cancelled'') rows)"
  "m_pending (foldl (\<lambda>v row. month_entry_step B row v) v rows) =
     m_pending v + length (filter (\<lambda>row. get_or row ''order-status'' [] = ''Pending'') rows)"
  by (induction rows arbitrary: v) (simp_all add: month_entry_step_counters)

lemma get_monthly_trends_get:
  "dict_get month_default (get_monthly_trends B orders) k =
     foldl (\<lambda>v row. month_entry_step B row v) month_default
       (filter (\<lambda>row. row_month B row = Some k) orders)"
proof -
  have "dict_get month_default (get_monthly_trends B orders) k =
      dict_get month_default (monthly_dict B orders) k"
    unfolding get_monthly_trends_def
    by (rule dict_get_sorted_items [OF distinct_monthly_dict])
  moreover have "dict_get month_default [] k = month_default"
    by (simp add: dict_get_def)
  ultimately show ?thesis
    by (simp add: monthly_dict_def monthly_loop_get)
qed

text \<open>
  Claim C10: in the monthly trend result the shipped, cancelled and pending counters of
  every month add up to at most the order count of the month; a row that falls into
  month \<open>k\<close> and whose status is none of the three raises the order count of \<open>k\<close> by
  one and leaves its three status counters as they are.
\<close>

theorem monthly_status_counters:
  assumes "get_or row ''purchase-date'' [] \<noteq> []"
    and "month_key B (get_or row ''purchase-date'' []) = Some k"
    and "get_or row ''order-status'' [] \<notin> {''Shipped'', ''Cancelled'', ''Pending''}"
  shows
   "list_all (\<lambda>(key, m). m_shipped m + m_cancelled m + m_pending m \<le> m_orders m)
      (get_monthly_trends B orders) \<and>
    m_orders (dict_get month_default (get_monthly_trends B (xs @ row # ys)) k) =
      m_orders (dict_get month_default (get_monthly_trends B (xs @ ys)) k) + 1 \<and>
    m_shipped (dict_get month_default (get_monthly_trends B (xs @ row # ys)) k) =
      m_shipped (dict_get month_default (get_monthly_trends B (xs @ ys)) k) \<and>
    m_cancelled (dict_get month_default (get_monthly_trends B (xs @ row # ys)) k) =
      m_cancelled (dict_get month_default (get_monthly_trends B (xs @ ys)) k) \<and>
    m_pending (dict_get month_default (get_monthly_trends B (xs @ row # ys)) k) =
      m_pending (dict_get month_default (get_monthly_trends B (xs @ ys)) k)"
proof -
  have "list_all (\<lambda>(key, m). m_shipped m + m_cancelled m + m_pending m \<le> m_orders m)
      (get_monthly_trends B orders)"
    using monthly_dict_bound [of B orders]
    by (simp add: get_monthly_trends_def sorted_items_def list_all_iff set_sort)
  moreover from assms(1,2) have "row_month B row = Some k"
    by (simp add: row_month_def)
  ultimately show ?thesis
    using assms(3)
    by (simp add: get_monthly_trends_get entry_loop_counters month_entry_step_counters)
qed

theorem monthly_status_counters_witness:
  "get_or row_unshipped ''purchase-date'' [] \<noteq> [] \<and>
   month_key sample_builtins (get_or row_unshipped ''purchase-date'' []) = Some ''2024-03'' \<and>
   get_or row_unshipped ''order-status'' [] \<notin> {''Shipped'', ''Cancelled'', ''Pending''} \<and>
   list_all (\<lambda>(key, m). m_shipped m + m_cancelled m + m_pending m \<le> m_orders m)
     (get_monthly_trends sample_builtins [row_shipped, row_unshipped, row_cancelled]) \<and>
   get_monthly_trends sample_builtins ([row_shipped] @ row_unshipped # [row_cancelled]) =
     [(''2023-11'', \<lparr>m_orders = 1, m_revenue = 0, m_items = 1, m_shipped = 0,
                      m_cancelled = 1, m_pending = 0\<rparr>),
      (''2024-03'', \<lparr>m_orders = 2, m_revenue = 10, m_items = 3, m_shipped = 1,
                      m_cancelled = 0, m_pending = 0\<rparr>)] \<and>
   m_orders (dict_get month_default
       (get_monthly_trends sample_builtins ([row_shipped] @ row_unshipped # [row_cancelled]))
       ''2024-03'') =
     m_orders (dict_get month_default
       (get_monthly_trends sample_builtins ([row_shipped] @ [row_cancelled])) ''2024-03'') + 1 \<and>
   m_shipped (dict_get month_default
       (get_monthly_trends sample_builtins ([row_shipped] @ row_unshipped # [row_cancelled]))
       ''2024-03'') =
     m_shipped (dict_get month_default
       (get_monthly_trends sample_builtins ([row_shipped] @ [row_cancelled])) ''2024-03'')"
proof -
  have h1: "get_or row_unshipped ''purchase-date'' [] \<noteq> []" by code_simp
  have h2: "month_key sample_builtins (get_or row_unshipped ''purchase-date'' []) = Some ''2024-03''"
    by code_simp
  have h3: "get_or row_unshipped ''order-status'' [] \<notin> {''Shipped'', ''Cancelled'', ''Pending''}"
    by (simp add: row_unshipped_def get_or_def)
  have e: "get_monthly_trends sample_builtins ([row_shipped] @ row_unshipped # [row_cancelled]) =
     [(''2023-11'', \<lparr>m_orders = 1, m_revenue = 0, m_items = 1, m_shipped = 0,
                      m_cancelled = 1, m_pending = 0\<rparr>),
      (''2024-03'', \<lparr>m_orders = 2, m_revenue = 10, m_items = 3, m_shipped = 1,
                      m_cancelled = 0, m_pending = 0\<rparr>)]"
    by code_simp
  note t = monthly_status_counters [OF h1 h2 h3,
      of "[row_shipped, row_unshipped, row_cancelled]" "[row_shipped]" "[row_cancelled]"]
  show ?thesis
    by (intro conjI h1 h2 h3 e t [THEN conjunct1] t [THEN conjunct2, THEN conjunct1]
        t [THEN conjunct2, THEN conjunct2, THEN conjunct1])
qed

section \<open>Rows without a usable purchase date\<close>

lemma monthly_step_undated: "row_month B row = None \<Longrightarrow> monthly_step B m row = m"
  by (simp add: monthly_step_row_month)

lemma get_monthly_trends_undated:
  "row_month B row = None \<Longrightarrow>
     get_monthly_trends B (xs @ row # ys) = get_monthly_trends B (xs @ ys)"
  by (simp add: get_monthly_trends_def monthly_dict_def monthly_step_undated)

lemma dict_get_empty: "dict_get d [] k = d"
  by (simp add: dict_get_def)

lemma get_summary_counts:
  "dict_get 0 (by_status (get_summary B orders)) k =
     length (filter (\<lambda>row. get_or row ''order-status'' ''Unknown'' = k) orders)"
  "dict_get 0 (by_marketplace (get_summary B orders)) k =
     length (filter (\<lambda>row. get_or row ''sales-channel'' ''Unknown'' = k) orders)"
  "dict_get 0 (by_country (get_summary B orders)) k =
     length (filter (\<lambda>row. get_or row ''ship-country'' ''Unknown'' = k) orders)"
  "dict_get 0 (by_fulfillment (get_summary B orders)) k =
     length (filter (\<lambda>row. get_or row ''fulfillment-channel'' ''Unknown'' = k) orders)"
  by (simp_all add: get_summary_def summary_loop_counts count_loop_get summary_init_def
      dict_get_empty)

text \<open>
  Claim C7: a row whose purchase date is absent, empty or unparsable adds nothing to
  any month of the monthly trend (the result is the one computed without the row), and
  in the summary it still counts as every row does: one more order, one more under its
  status, marketplace, country and fulfillment channel, its item price in the revenue
  when it is shipped and the price parses, and its quantity in the items when it parses.
\<close>

theorem undated_row_only_leaves_monthly_trend:
  assumes "get_or row ''purchase-date'' [] = [] \<or>
           py_fromisoformat B (replace_Z (get_or row ''purchase-date'' [])) = None"
  shows
   "get_monthly_trends B (xs @ row # ys) = get_monthly_trends B (xs @ ys) \<and>
    total_orders (get_summary B (xs @ row # ys)) = total_orders (get_summary B (xs @ ys)) + 1 \<and>
    dict_get 0 (by_status (get_summary B (xs @ row # ys))) (get_or row ''order-status'' ''Unknown'') =
      dict_get 0 (by_status (get_summary B (xs @ ys))) (get_or row ''order-status'' ''Unknown'') + 1 \<and>
    dict_get 0 (by_marketplace (get_summary B (xs @ row # ys)))
        (get_or row ''sales-channel'' ''Unknown'') =
      dict_get 0 (by_marketplace (get_summary B (xs @ ys)))
        (get_or row ''sales-channel'' ''Unknown'') + 1 \<and>
    dict_get 0 (by_country (get_summary B (xs @ row # ys))) (get_or row ''ship-country'' ''Unknown'') =
      dict_get 0 (by_country (get_summary B (xs @ ys))) (get_or row ''ship-country'' ''Unknown'') + 1 \<and>
    dict_get 0 (by_fulfillment (get_summary B (xs @ row # ys)))
        (get_or row ''fulfillment-channel'' ''Unknown'') =
      dict_get 0 (by_fulfillment (get_summary B (xs @ ys)))
        (get_or row ''fulfillment-channel'' ''Unknown'') + 1 \<and>
    total_revenue (get_summary B (xs @ row # ys)) =
      total_revenue (get_summary B (xs @ ys)) + shipped_revenue B row \<and>
    total_items_sold (get_summary B (xs @ row # ys)) =
      total_items_sold (get_summary B (xs @ ys)) + parsed_quantity B row"
proof -
  from assms have "row_month B row = None"
    by (auto simp: row_month_def month_key_def)
  then have "get_monthly_trends B (xs @ row # ys) = get_monthly_trends B (xs @ ys)"
    by (rule get_monthly_trends_undated)
  then show ?thesis
    by (simp add: get_summary_total_orders get_summary_counts get_summary_total_revenue
        get_summary_total_items)
qed

theorem undated_row_only_leaves_monthly_trend_witness:
  "py_fromisoformat sample_builtins (replace_Z (get_or row_no_date ''purchase-date'' [])) = None \<and>
   get_monthly_trends sample_builtins ([row_shipped] @ row_no_date # [row_cancelled]) =
     get_monthly_trends sample_builtins ([row_shipped] @ [row_cancelled]) \<and>
   total_orders (get_summary sample_builtins ([row_shipped] @ row_no_date # [row_cancelled])) = 3 \<and>
   dict_get 0 (by_status (get_summary sample_builtins ([row_shipped] @ row_no_date # [row_cancelled])))
     ''Shipped'' = 2 \<and>
   dict_get 0 (by_country (get_summary sample_builtins ([row_shipped] @ row_no_date # [row_cancelled])))
     ''IT'' = 1 \<and>
   total_revenue (get_summary sample_builtins ([row_shipped] @ row_no_date # [row_cancelled])) = 17 \<and>
   total_items_sold (get_summary sample_builtins ([row_shipped] @ row_no_date # [row_cancelled])) = 6"
proof -
  have h: "py_fromisoformat sample_builtins (replace_Z (get_or row_no_date ''purchase-date'' [])) = None"
    by code_simp
  have s: "get_or row_no_date ''order-status'' ''Unknown'' = ''Shipped''"
    and c: "get_or row_no_date ''ship-country'' ''Unknown'' = ''IT''"
    and r: "shipped_revenue sample_builtins row_no_date = 7"
    and q: "parsed_quantity sample_builtins row_no_date = 3"
    by code_simp+
  have e: "total_orders (get_summary sample_builtins ([row_shipped] @ [row_cancelled])) = 2"
    "dict_get 0 (by_status (get_summary sample_builtins ([row_shipped] @ [row_cancelled]))) ''Shipped'' = 1"
    "dict_get 0 (by_country (get_summary sample_builtins ([row_shipped] @ [row_cancelled]))) ''IT'' = 0"
    "total_revenue (get_summary sample_builtins ([row_shipped] @ [row_cancelled])) = 10"
    "total_items_sold (get_summary sample_builtins ([row_shipped] @ [row_cancelled])) = 3"
    by code_simp+
  note t = undated_row_only_leaves_monthly_trend [OF disjI2, OF h, of "[row_shipped]" "[row_cancelled]"]
  show ?thesis
    using t by (intro conjI h; simp only: s c r q e; simp)
qed

section \<open>Properties of get_products_summary\<close>

subsection \<open>A stable sort keeps the earlier of two equal keys first\<close>



subsection \<open>The dictionary lists the SKUs in the order of their first appearance\<close>














section \<open>Properties of get_promotions_analysis\<close>













section \<open>A field that does not parse and the fields after it\<close>

text \<open>
  Claim C1 states that a numeric field that does not parse is replaced by zero for that
  field alone. In \<^verbatim>\<open>get_summary\<close> the three amounts share one \<^verbatim>\<open>try\<close> block, and in
  \<^verbatim>\<open>get_monthly_trends\<close> the quantity and the price share the block of the date, so a
  field that raises also drops the fields read after it: for a shipped row with price
  10, tax \<^verbatim>\<open>abc\<close> and shipping 5 the summary has revenue 10 but shipping 0, and for a
  shipped row with quantity \<^verbatim>\<open>abc\<close> and price 40 the month has one shipped order and
  revenue 0. The summary and the fulfillment analysis, which read the quantity in a
  \<^verbatim>\<open>try\<close> block of its own, give the same row the revenue 40.
\<close>

theorem unparsed_field_drops_later_fields:
  "get_summary sample_builtins [row_bad_tax] =
     \<lparr>total_orders = 1, by_status = [(''Shipped'', 1)], by_marketplace = [(''Unknown'', 1)],
      by_country = [(''Unknown'', 1)], by_fulfillment = [(''Unknown'', 1)],
      total_revenue = 10, total_tax = 0, total_shipping = 0, total_items_sold = 2\<rparr> \<and>
   float_field sample_builtins row_bad_tax ''shipping-price'' = Some 5 \<and>
   get_monthly_trends sample_builtins [row_bad_quantity] =
     [(''2024-03'', \<lparr>m_orders = 1, m_revenue = 0, m_items = 0, m_shipped = 1,
                      m_cancelled = 0, m_pending = 0\<rparr>)] \<and>
   float_field sample_builtins row_bad_quantity ''item-price'' = Some 40 \<and>
   total_revenue (get_summary sample_builtins [row_bad_quantity]) = 40 \<and>
   c_revenue (fbm (get_fba_fbm_analysis sample_builtins [row_bad_quantity])) = 40"
  by code_simp

text \<open>
  The same for every parser: in \<^verbatim>\<open>get_summary\<close> a tax that does not parse keeps the
  shipping total as it was, whatever the shipping cell holds, and in
  \<^verbatim>\<open>get_monthly_trends\<close> a quantity that does not parse keeps the revenue of the month
  as it was, whatever the price cell holds.
\<close>

lemma summary_amounts_unparsed_tax:
  "float_field B row ''item-tax'' = None \<Longrightarrow>
     total_shipping (summary_amounts B row s) = total_shipping s"
  by (simp add: summary_amounts_def Let_def split: option.splits)

lemma month_entry_step_unparsed_quantity:
  "int_field B row ''quantity'' = None \<Longrightarrow>
     m_revenue (month_entry_step B row m) = m_revenue m \<and>
     m_orders (month_entry_step B row m) = m_orders m + 1"
  by (simp add: month_entry_step_def Let_def)

end
